theory Spec2Isabelle
  imports Main "HOL-Library.Sublist"
begin

section \<open>Data model (the pydantic models of \<open>src/lib/main.py\<close>)\<close>

text \<open>
  Several models of the source share field names (\<open>nome\<close>, \<open>data\<close>); a record field is a
  constant of the theory, so the clashing ones carry the model's name as a prefix.
  A UUID is kept as its text; a calendar date as year, month and day. Python's
  unbounded \<open>int\<close> is \<open>int\<close>; lengths and tallies that start at 0 and only grow are \<open>nat\<close>.
\<close>

record Project =
  project_nome :: string
  concluido :: bool

record Team =
  team_nome :: string
  lider :: bool
  projetos :: "Project list"

datatype date = Date (year: int) (month: int) (day: int)

record LogEntry =
  log_data :: date
  acao :: string

record Person =
  person_id :: string
  nome :: string
  idade :: int
  score :: int
  ativo :: bool
  pais :: string
  equipe :: Team
  logs :: "LogEntry list"

text \<open>
  \<open>cache = {}\<close>: a process-wide dictionary. The only key ever written is \<open>''people''\<close>,
  holding the list of dumped records in payload order.
\<close>

type_synonym cache = "string \<rightharpoonup> Person list"

text \<open>
  The two ways a request fails: an \<open>HTTPException\<close> raised by a handler with the status
  it names, and the validation error that FastAPI raises itself when a declared
  parameter or body does not validate (\<open>List[Person]\<close>, \<open>Query(None, ge=0)\<close>), before the
  handler body runs. FastAPI answers the latter with status 422.
\<close>

datatype error = HTTPException int string | RequestValidationError

fun http_status :: "error \<Rightarrow> int" where
  "http_status (HTTPException status_code detail) = status_code"
| "http_status RequestValidationError = 422"

text \<open>
  The body of every query response. \<open>processing_time_ms\<close> is a rounded wall-clock
  difference; the model takes the measured value as an input of the handler.
\<close>

record ('t, 'a) response =
  processing_time_ms :: 't
  total :: nat
  data :: "'a list"

abbreviation no_people :: error where
  "no_people \<equiv> HTTPException 404 ''Nenhuma pessoa em cache''"

section \<open>Insertion-ordered dictionaries\<close>

text \<open>
  A Python \<open>dict\<close> (and so \<open>Counter\<close> and \<open>defaultdict\<close>) iterates in the order in which
  its keys were first inserted. Such a dictionary is an association list with distinct
  keys; \<open>d[k] = f(d[k])\<close> on a \<open>defaultdict\<close> with default \<open>z\<close> changes the value in place
  when the key is present and appends \<open>(k, f z)\<close> otherwise.
\<close>

fun dd_update :: "'v \<Rightarrow> 'k \<Rightarrow> ('v \<Rightarrow> 'v) \<Rightarrow> ('k \<times> 'v) list \<Rightarrow> ('k \<times> 'v) list" where
  "dd_update z k f [] = [(k, f z)]"
| "dd_update z k f ((k', v) # kvs) =
     (if k' = k then (k', f v) # kvs else (k', v) # dd_update z k f kvs)"

text \<open>\<open>Counter(iterable)\<close>: one \<open>+= 1\<close> per element, left to right.\<close>

definition Counter :: "'k list \<Rightarrow> ('k \<times> nat) list" where
  "Counter xs = foldl (\<lambda>d k. dd_update 0 k Suc d) [] xs"

text \<open>
  \<open>Counter.most_common(n)\<close> is \<open>heapq.nlargest(n, items, key=count)\<close>, documented as
  \<open>sorted(items, key=count, reverse=True)[:n]\<close>: a stable sort by descending count,
  so equal counts keep their dictionary order. \<open>sort_key\<close> is a stable insertion sort.
\<close>

definition most_common :: "nat \<Rightarrow> ('k \<times> nat) list \<Rightarrow> ('k \<times> nat) list" where
  "most_common n items = take n (sort_key (\<lambda>(k, c). - int c) items)"

section \<open>\<open>POST /users\<close>\<close>

text \<open>\<open>str(n)\<close> of a non-negative integer, for the f-string of the reply.\<close>

fun str_nat :: "nat \<Rightarrow> string" where
  "str_nat n =
     (if n < 10 then [''0123456789'' ! n]
      else str_nat (n div 10) @ [''0123456789'' ! (n mod 10)])"

declare str_nat.simps [simp del]

text \<open>\<open>person.model_dump()\<close> turns a model into a dictionary with the same fields.\<close>

definition model_dump :: "Person \<Rightarrow> Person" where
  "model_dump person = person"

record reply =
  message :: string

text \<open>The handler body: it runs on a payload that has validated.\<close>

definition post_users_body :: "cache \<Rightarrow> Person list \<Rightarrow> cache \<times> reply" where
  "post_users_body cache people =
     (cache(''people'' \<mapsto> map model_dump people),
      \<lparr>message = str_nat (length people) @ '' pessoas armazenadas em cache''\<rparr>)"

text \<open>
  The route: FastAPI validates every element of the JSON array against \<open>Person\<close>
  (pydantic) and calls the body only when all of them validate. The validator is a
  parameter: it maps a raw element to the model it parses to, or to \<open>None\<close>.
\<close>

definition post_users ::
  "('raw \<Rightarrow> Person option) \<Rightarrow> cache \<Rightarrow> 'raw list \<Rightarrow> cache \<times> (error + reply)" where
  "post_users validate cache body =
     (case those (map validate body) of
        None \<Rightarrow> (cache, Inl RequestValidationError)
      | Some people \<Rightarrow>
          (let (cache', r) = post_users_body cache people in (cache', Inr r)))"

section \<open>\<open>GET /users\<close>\<close>

definition get_users :: "'t \<Rightarrow> cache \<Rightarrow> error + ('t, Person) response" where
  "get_users elapsed cache =
     (case cache ''people'' of
        None \<Rightarrow> Inl no_people
      | Some people \<Rightarrow>
          (let superusers = [person \<leftarrow> people. score person \<ge> 900 \<and> ativo person]
           in Inr \<lparr>processing_time_ms = elapsed,
                   total = length superusers,
                   data = superusers\<rparr>))"

section \<open>\<open>GET /top-countries\<close>\<close>

definition top_countries :: "'t \<Rightarrow> cache \<Rightarrow> error + ('t, string \<times> nat) response" where
  "top_countries elapsed cache =
     (case cache ''people'' of
        None \<Rightarrow> Inl no_people
      | Some people \<Rightarrow>
          (let superusuarios = map pais [usuario \<leftarrow> people. score usuario > 800];
               pais_contagem = Counter superusuarios;
               top_5_paises = most_common 5 pais_contagem
           in Inr \<lparr>processing_time_ms = elapsed,
                   total = length top_5_paises,
                   data = top_5_paises\<rparr>))"

section \<open>\<open>GET /team-insights\<close>\<close>

record TeamInfo =
  info_total_membros :: nat
  info_lideres :: nat
  info_projetos_concluidos :: nat
  info_ativos :: nat

definition team_default :: TeamInfo where
  "team_default =
     \<lparr>info_total_membros = 0, info_lideres = 0, info_projetos_concluidos = 0, info_ativos = 0\<rparr>"

text \<open>One iteration of the loop over the people: the four updates of the team's entry.\<close>

definition team_step :: "Person \<Rightarrow> TeamInfo \<Rightarrow> TeamInfo" where
  "team_step usuario team_info =
     (let e = equipe usuario;
          i1 = team_info\<lparr>info_total_membros := info_total_membros team_info + 1\<rparr>;
          i2 = (if lider e then i1\<lparr>info_lideres := info_lideres i1 + 1\<rparr> else i1);
          i3 = i2\<lparr>info_projetos_concluidos :=
                    info_projetos_concluidos i2 + length [p \<leftarrow> projetos e. concluido p]\<rparr>
      in (if ativo usuario then i3\<lparr>info_ativos := info_ativos i3 + 1\<rparr> else i3))"

definition team_data :: "Person list \<Rightarrow> (string \<times> TeamInfo) list" where
  "team_data people =
     foldl (\<lambda>d usuario. dd_update team_default (team_nome (equipe usuario)) (team_step usuario) d)
       [] people"

text \<open>
  \<open>percentagem_ativos\<close> is \<open>round((ativos / total_membros) * 100, 2)\<close> in binary floating
  point when the team has members, and the integer \<open>0\<close> otherwise. The floating-point
  computation is a parameter \<open>pct\<close> of the model, applied to the two tallies.
\<close>

datatype 'f number = IntNum int | FloatNum 'f

record 'f insight =
  team_name :: string
  total_membros :: nat
  lideres :: nat
  projetos_concluidos :: nat
  percentagem_ativos :: "'f number"

definition insight_of :: "(nat \<Rightarrow> nat \<Rightarrow> 'f) \<Rightarrow> string \<times> TeamInfo \<Rightarrow> 'f insight" where
  "insight_of pct = (\<lambda>(name, d).
     \<lparr>team_name = name,
      total_membros = info_total_membros d,
      lideres = info_lideres d,
      projetos_concluidos = info_projetos_concluidos d,
      percentagem_ativos =
        (if info_total_membros d > 0 then FloatNum (pct (info_ativos d) (info_total_membros d))
         else IntNum 0)\<rparr>)"

definition team_insights ::
  "(nat \<Rightarrow> nat \<Rightarrow> 'f) \<Rightarrow> 't \<Rightarrow> cache \<Rightarrow> error + ('t, 'f insight) response" where
  "team_insights pct elapsed cache =
     (case cache ''people'' of
        None \<Rightarrow> Inl no_people
      | Some people \<Rightarrow>
          (let insights = map (insight_of pct) (team_data people)
           in Inr \<lparr>processing_time_ms = elapsed,
                   total = length insights,
                   data = insights\<rparr>))"

section \<open>\<open>GET /active-users-per-day\<close>\<close>

record day_logins =
  day_data :: date
  logins :: nat

text \<open>The two nested loops: every log of every person, one \<open>+= 1\<close> per login.\<close>

definition login_count_by_day :: "Person list \<Rightarrow> (date \<times> nat) list" where
  "login_count_by_day people =
     foldl (\<lambda>d usuario.
              foldl (\<lambda>d log. if acao log = ''login'' then dd_update 0 (log_data log) Suc d else d)
                d (logs usuario))
       [] people"

text \<open>The handler body, on a \<open>min\<close> that has validated (\<open>None\<close> when the parameter is absent).\<close>

definition active_users_per_day_body ::
  "'t \<Rightarrow> cache \<Rightarrow> int option \<Rightarrow> error + ('t, day_logins) response" where
  "active_users_per_day_body elapsed cache min_opt =
     (case cache ''people'' of
        None \<Rightarrow> Inl no_people
      | Some people \<Rightarrow>
          (let counted = login_count_by_day people;
               kept = (case min_opt of
                         None \<Rightarrow> counted
                       | Some m \<Rightarrow> [(date, count) \<leftarrow> counted. int count \<ge> m]);
               active_users_per_day =
                 map (\<lambda>(date, count). \<lparr>day_data = date, logins = count\<rparr>) kept
           in Inr \<lparr>processing_time_ms = elapsed,
                   total = length active_users_per_day,
                   data = active_users_per_day\<rparr>))"

text \<open>
  The route: \<open>min: Optional[int] = Query(None, ge=0)\<close>. FastAPI checks \<open>ge=0\<close> on a
  parameter that is present and raises its validation error without calling the body.
\<close>

definition active_users_per_day ::
  "'t \<Rightarrow> cache \<Rightarrow> int option \<Rightarrow> error + ('t, day_logins) response" where
  "active_users_per_day elapsed cache min_opt =
     (case min_opt of
        Some m \<Rightarrow> (if m \<ge> 0 then active_users_per_day_body elapsed cache min_opt
                   else Inl RequestValidationError)
      | None \<Rightarrow> active_users_per_day_body elapsed cache min_opt)"

section \<open>\<open>GET /evaluation\<close>\<close>


record 't endpoint_result =
  status_code :: "int option"
  status_ok :: bool
  time_ms :: "'t option"
  valid_response :: bool
  error :: "string option"









section \<open>Notions of the specification\<close>

text \<open>
  The functions below are not code of the program: they say, in the specification's
  words, what the aggregations are compared with.

  The distinct elements of a list, in the order of their first occurrence.
\<close>

fun first_occurrences :: "'a list \<Rightarrow> 'a list" where
  "first_occurrences [] = []"
| "first_occurrences (x # xs) = x # [y \<leftarrow> first_occurrences xs. y \<noteq> x]"

text \<open>
  The dates of the login entries of a snapshot, in the order in which the records and
  their logs are scanned.
\<close>

definition login_dates :: "Person list \<Rightarrow> date list" where
  "login_dates people = map log_data [l \<leftarrow> concat (map logs people). acao l = ''login'']"

text \<open>The number of log entries, across all records, with action \<open>login\<close> on a given date.\<close>

definition logins_on :: "Person list \<Rightarrow> date \<Rightarrow> nat" where
  "logins_on people d =
     length [l \<leftarrow> concat (map logs people). acao l = ''login'' \<and> log_data l = d]"

text \<open>The number of records with a score above 800 in a given country.\<close>

definition country_count :: "Person list \<Rightarrow> string \<Rightarrow> nat" where
  "country_count people c = length [u \<leftarrow> people. score u > 800 \<and> pais u = c]"

text \<open>The records of a team, and the completed projects of one record's team entry.\<close>

definition members :: "Person list \<Rightarrow> string \<Rightarrow> Person list" where
  "members people t = [u \<leftarrow> people. team_nome (equipe u) = t]"

definition completed :: "Person \<Rightarrow> nat" where
  "completed u = length [p \<leftarrow> projetos (equipe u). concluido p]"

section \<open>Sample data\<close>

text \<open>The concrete inputs at which the theorems below are instantiated.\<close>

definition sample_person ::
  "string \<Rightarrow> int \<Rightarrow> bool \<Rightarrow> string \<Rightarrow> string \<Rightarrow> LogEntry list \<Rightarrow> Person" where
  "sample_person n s a c t ls =
     \<lparr>person_id = ''3f2b8c1e-5d4a-4c3b-9e2f-1a2b3c4d5e6f'', nome = n, idade = 30, score = s,
      ativo = a, pais = c,
      equipe = \<lparr>team_nome = t, lider = False, projetos = []\<rparr>,
      logs = ls\<rparr>"

definition ana :: Person where
  "ana = sample_person ''Ana'' 950 True ''BR'' ''core''
           [\<lparr>log_data = Date 2025 3 1, acao = ''login''\<rparr>,
            \<lparr>log_data = Date 2025 3 2, acao = ''login''\<rparr>]"

definition bia :: Person where
  "bia = sample_person ''Bia'' 800 True ''BR'' ''core''
           [\<lparr>log_data = Date 2025 3 2, acao = ''logout''\<rparr>,
            \<lparr>log_data = Date 2025 3 2, acao = ''login''\<rparr>]"

definition caio :: Person where
  "caio = sample_person ''Caio'' 120 False ''US'' ''infra''
            [\<lparr>log_data = Date 2025 3 3, acao = ''login''\<rparr>]"

definition dora :: Person where
  "dora = sample_person ''Dora'' 870 True ''US'' ''infra'' []"

definition edu :: Person where
  "edu = sample_person ''Edu'' 910 False ''BR'' ''core'' []"


section \<open>Auxiliary facts\<close>


lemma those_map_None:
  "those (map f xs) = None \<longleftrightarrow> (\<exists>x \<in> set xs. f x = None)"
  by (induction xs) (auto split: option.splits)

lemma those_map_Some:
  "those (map f xs) = Some ys \<longleftrightarrow> map f xs = map Some ys"
  by (induction xs arbitrary: ys) (auto split: option.splits)

subsection \<open>Dictionaries built by a loop\<close>

lemma set_first_occurrences [simp]: "set (first_occurrences xs) = set xs"
  by (induction xs) auto

lemma distinct_first_occurrences [simp]: "distinct (first_occurrences xs)"
  by (induction xs) auto

lemma first_occurrences_snoc:
  "first_occurrences (xs @ [x]) = first_occurrences xs @ (if x \<in> set xs then [] else [x])"
  by (induction xs) auto

lemma dd_update_tabulate:
  "distinct ks \<Longrightarrow>
   dd_update z x f (map (\<lambda>k. (k, g k)) ks) =
     (if x \<in> set ks then map (\<lambda>k. (k, if k = x then f (g k) else g k)) ks
      else map (\<lambda>k. (k, g k)) ks @ [(x, f z)])"
  by (induction ks) auto

lemma group_fold:
  "foldl (\<lambda>d x. dd_update z (key x) (step x) d) [] xs =
     map (\<lambda>k. (k, foldl (\<lambda>v x. step x v) z [x \<leftarrow> xs. key x = k]))
       (first_occurrences (map key xs))"
proof (induction xs rule: rev_induct)
  case Nil
  then show ?case by simp
next
  case (snoc x xs)
  have nomem: "key x \<notin> key ` set xs \<Longrightarrow> [y \<leftarrow> xs. key y = key x] = []"
    by (induction xs) auto
  show ?case
    by (auto simp: snoc.IH dd_update_tabulate first_occurrences_snoc nomem)
qed

lemma Counter_eq:
  "Counter xs = map (\<lambda>k. (k, count_list xs k)) (first_occurrences xs)"
proof -
  have len: "foldl (\<lambda>v x. Suc v) n ys = n + length ys" for n :: nat and ys :: "'a list"
    by (induction ys arbitrary: n) auto
  have "Counter xs = foldl (\<lambda>d x. dd_update 0 (id x) ((\<lambda>_. Suc) x) d) [] xs"
    by (simp add: Counter_def)
  also have "\<dots> = map (\<lambda>k. (k, foldl (\<lambda>v x. (\<lambda>_. Suc) x v) 0 [x \<leftarrow> xs. id x = k]))
       (first_occurrences (map id xs))"
    by (rule group_fold)
  also have "\<dots> = map (\<lambda>k. (k, count_list xs k)) (first_occurrences xs)"
    by (auto simp: len count_list_eq_length_filter intro!: arg_cong [where f = length] filter_cong)
  finally show ?thesis .
qed

lemma foldl_cond_update:
  "foldl (\<lambda>d l. if P l then g (key l) d else d) d ls = foldl (\<lambda>d k. g k d) d (map key (filter P ls))"
  by (induction ls arbitrary: d) auto

lemma foldl_nested:
  "foldl (\<lambda>d x. foldl f d (sub x)) d xs = foldl f d (concat (map sub xs))"
  by (induction xs arbitrary: d) auto

lemma login_count_by_day_Counter:
  "login_count_by_day people = Counter (login_dates people)"
  using foldl_cond_update [of "\<lambda>l. acao l = ''login''" "\<lambda>k d. dd_update 0 k Suc d" log_data "[]"
      "concat (map logs people)"]
  by (simp add: login_count_by_day_def foldl_nested Counter_def login_dates_def)

subsection \<open>Logins per day\<close>

lemma count_list_map:
  "count_list (map f xs) k = length [x \<leftarrow> xs. f x = k]"
  by (induction xs) auto

lemma count_login_dates: "count_list (login_dates people) d = logins_on people d"
  by (simp add: login_dates_def logins_on_def count_list_map)

lemma in_login_dates: "d \<in> set (login_dates people) \<longleftrightarrow> logins_on people d \<ge> 1"
proof -
  have "d \<in> set (login_dates people) \<longleftrightarrow> count_list (login_dates people) d \<noteq> 0"
    by (simp add: count_list_0_iff)
  then show ?thesis
    by (simp add: count_login_dates Suc_le_eq)
qed

lemma active_users_per_day_body_eq:
  assumes "cache ''people'' = Some people"
  shows "active_users_per_day_body elapsed cache min_opt =
     (let days = map (\<lambda>d. \<lparr>day_data = d, logins = logins_on people d\<rparr>)
                   [d \<leftarrow> first_occurrences (login_dates people).
                      case min_opt of None \<Rightarrow> True | Some m \<Rightarrow> m \<le> int (logins_on people d)]
      in Inr \<lparr>processing_time_ms = elapsed, total = length days, data = days\<rparr>)"
  using assms
  by (cases min_opt)
    (simp_all add: active_users_per_day_body_def login_count_by_day_Counter Counter_eq
      count_login_dates filter_map comp_def Let_def)

lemma length_filter_mono:
  "(\<And>x. x \<in> set xs \<Longrightarrow> P x \<Longrightarrow> Q x) \<Longrightarrow> length (filter P xs) \<le> length (filter Q xs)"
  by (induction xs) auto

subsection \<open>The most common items\<close>

lemma sum_list_insort_key:
  "sum_list (map g (insort_key f x xs)) = g x + sum_list (map g xs)"
  for g :: "'a \<Rightarrow> nat"
  by (induction xs) auto

lemma sum_list_sort_key:
  "sum_list (map g (sort_key f xs)) = sum_list (map g xs)"
  for g :: "'a \<Rightarrow> nat"
  by (induction xs) (auto simp: sum_list_insort_key)

lemma sum_list_take_le:
  "sum_list (map g (take n xs)) \<le> sum_list (map g xs)"
  for g :: "'a \<Rightarrow> nat"
proof -
  have "sum_list (map g xs) = sum_list (map g (take n xs)) + sum_list (map g (drop n xs))"
    by (metis append_take_drop_id map_append sum_list_append)
  then show ?thesis by simp
qed

lemma sum_counts:
  "sum_list (map (count_list xs) (first_occurrences xs)) = length xs"
proof -
  have "sum_list (map (count_list xs) (first_occurrences xs))
      = sum (count_list xs) (set (first_occurrences xs))"
    by (rule sum_list_distinct_conv_sum_set) simp
  also have "\<dots> = length xs"
    by (simp add: sum_count_set)
  finally show ?thesis .
qed

lemma sorted_desc:
  "sorted_wrt (\<lambda>p q. snd q \<le> snd p) (sort_key (\<lambda>(k, c). - int c) items)"
  for items :: "('k \<times> nat) list"
proof -
  have "sorted (map (\<lambda>(k, c). - int c) (sort_key (\<lambda>(k, c). - int c) items))"
    by (rule sorted_sort_key)
  then show ?thesis
    by (simp add: sorted_map case_prod_beta)
qed

lemma stable_desc:
  "[p \<leftarrow> sort_key (\<lambda>(k, c). - int c) items. snd p = n] = [p \<leftarrow> items. snd p = n]"
  for items :: "('k \<times> nat) list"
proof -
  have eq: "(\<lambda>p. snd p = n) = (\<lambda>p. (\<lambda>(k, c). - int c) p = - int n)"
    by (auto simp: case_prod_beta)
  show ?thesis
    by (simp only: eq sort_key_stable)
qed

lemma most_common_props:
  fixes items :: "('k \<times> nat) list"
  shows "length (most_common n items) = min n (length items)"
    and "set (most_common n items) \<subseteq> set items"
    and "distinct (map fst items) \<Longrightarrow> distinct (map fst (most_common n items))"
    and "sorted_wrt (\<lambda>p q. snd q \<le> snd p) (most_common n items)"
    and "prefix [p \<leftarrow> most_common n items. snd p = c] [p \<leftarrow> items. snd p = c]"
    and "sum_list (map snd (most_common n items)) \<le> sum_list (map snd items)"
    and "p \<in> set items \<Longrightarrow> p \<notin> set (most_common n items) \<Longrightarrow>
           q \<in> set (most_common n items) \<Longrightarrow> snd p \<le> snd q"
proof -
  let ?S = "sort_key (\<lambda>(k, c). - int c) items"
  show "length (most_common n items) = min n (length items)"
    by (simp add: most_common_def)
  show "set (most_common n items) \<subseteq> set items"
    using set_take_subset [of n ?S] by (simp add: most_common_def)
  show "distinct (map fst (most_common n items))" if "distinct (map fst items)"
  proof -
    from that have "distinct ?S" "inj_on fst (set ?S)"
      by (simp_all add: distinct_map)
    then have "distinct (map fst ?S)"
      by (simp add: distinct_map)
    then have "distinct (take n (map fst ?S))"
      by (rule distinct_take)
    then show ?thesis
      by (simp add: most_common_def take_map)
  qed
  show "sorted_wrt (\<lambda>p q. snd q \<le> snd p) (most_common n items)"
    using sorted_desc [of items] by (simp add: most_common_def)
  have "prefix (take n ?S) ?S"
    by (rule take_is_prefix)
  then have "prefix [p \<leftarrow> take n ?S. snd p = c] [p \<leftarrow> ?S. snd p = c]"
    by (rule filter_mono_prefix)
  then show "prefix [p \<leftarrow> most_common n items. snd p = c] [p \<leftarrow> items. snd p = c]"
    by (simp only: most_common_def stable_desc)
  show "sum_list (map snd (most_common n items)) \<le> sum_list (map snd items)"
    using sum_list_take_le [of snd n ?S] by (simp add: most_common_def sum_list_sort_key)
  show "snd p \<le> snd q"
    if "p \<in> set items" "p \<notin> set (most_common n items)" "q \<in> set (most_common n items)"
  proof -
    have "sorted_wrt (\<lambda>p q. snd q \<le> snd p) (take n ?S @ drop n ?S)"
      using sorted_desc [of items] by simp
    then have ord: "\<forall>x \<in> set (take n ?S). \<forall>y \<in> set (drop n ?S). snd y \<le> snd x"
      by (simp only: sorted_wrt_append) blast
    have "set ?S = set (take n ?S) \<union> set (drop n ?S)"
      by (metis append_take_drop_id set_append)
    with that(1,2) have "p \<in> set (drop n ?S)"
      by (simp add: most_common_def)
    with ord that(3) show ?thesis
      by (simp add: most_common_def)
  qed
qed

lemma count_countries:
  "count_list (map pais [u \<leftarrow> people. score u > 800]) c = country_count people c"
  by (simp add: count_list_map country_count_def)

lemma Counter_countries:
  "Counter (map pais [u \<leftarrow> people. score u > 800]) =
     map (\<lambda>c. (c, country_count people c))
       (first_occurrences (map pais [u \<leftarrow> people. score u > 800]))"
  by (simp only: Counter_eq count_countries)

subsection \<open>Team tallies\<close>

lemma team_fold:
  "foldl (\<lambda>v x. team_step x v) i xs =
     \<lparr>info_total_membros = info_total_membros i + length xs,
      info_lideres = info_lideres i + length [u \<leftarrow> xs. lider (equipe u)],
      info_projetos_concluidos = info_projetos_concluidos i + sum_list (map completed xs),
      info_ativos = info_ativos i + length [u \<leftarrow> xs. ativo u]\<rparr>"
  by (induction xs arbitrary: i) (auto simp: team_step_def completed_def Let_def)

lemma team_data_eq:
  "team_data people =
     map (\<lambda>t. (t, \<lparr>info_total_membros = length (members people t),
                    info_lideres = length [u \<leftarrow> members people t. lider (equipe u)],
                    info_projetos_concluidos = sum_list (map completed (members people t)),
                    info_ativos = length [u \<leftarrow> members people t. ativo u]\<rparr>))
       (first_occurrences (map (\<lambda>u. team_nome (equipe u)) people))"
  by (simp add: team_data_def group_fold team_fold team_default_def members_def)

lemma members_nonempty:
  "t \<in> set (map (\<lambda>u. team_nome (equipe u)) people) \<Longrightarrow> 0 < length (members people t)"
  by (auto simp: members_def filter_empty_conv)

lemma team_insights_tallies:
  assumes "cache ''people'' = Some people"
  shows "\<exists>r. team_insights pct elapsed cache = Inr r
    \<and> data r =
        map (\<lambda>t. \<lparr>team_name = t,
                   total_membros = length (members people t),
                   lideres = length [u \<leftarrow> members people t. lider (equipe u)],
                   projetos_concluidos = sum_list (map completed (members people t)),
                   percentagem_ativos =
                     FloatNum (pct (length [u \<leftarrow> members people t. ativo u])
                                   (length (members people t)))\<rparr>)
          (first_occurrences (map (\<lambda>u. team_nome (equipe u)) people))
    \<and> (\<forall>i \<in> set (data r). 0 < total_membros i)
    \<and> total r = length (data r)"
proof -
  let ?ts = "first_occurrences (map (\<lambda>u. team_nome (equipe u)) people)"
  have "map (insight_of pct) (team_data people) =
        map (\<lambda>t. \<lparr>team_name = t,
                   total_membros = length (members people t),
                   lideres = length [u \<leftarrow> members people t. lider (equipe u)],
                   projetos_concluidos = sum_list (map completed (members people t)),
                   percentagem_ativos =
                     FloatNum (pct (length [u \<leftarrow> members people t. ativo u])
                                   (length (members people t)))\<rparr>) ?ts"
    using members_nonempty [of _ people]
    by (simp add: team_data_eq insight_of_def comp_def)
  moreover have "\<forall>t \<in> set ?ts. 0 < length (members people t)"
    using members_nonempty [of _ people] by simp
  ultimately show ?thesis
    using assms by (simp add: team_insights_def Let_def)
qed

section \<open>The self-check's overall status\<close>



section \<open>Validation of \<open>min\<close>\<close>

text \<open>
  C2 (as the code has it). A negative \<open>min\<close> is rejected by the declared constraint
  \<open>ge=0\<close>, before the handler body and so before the cache is looked at or anything is
  counted, whatever the cache holds; the rejection is FastAPI's validation error, whose
  status is 422. A non-negative \<open>min\<close>, and an absent one, reach the handler body and are
  never answered with the validation error.
\<close>

theorem negative_min_rejected:
  "(m < 0 \<longrightarrow> active_users_per_day elapsed cache (Some m) = Inl RequestValidationError)
   \<and> (m \<ge> 0 \<longrightarrow> active_users_per_day elapsed cache (Some m)
                   = active_users_per_day_body elapsed cache (Some m)
                \<and> active_users_per_day elapsed cache (Some m) \<noteq> Inl RequestValidationError)
   \<and> active_users_per_day elapsed cache None \<noteq> Inl RequestValidationError
   \<and> http_status RequestValidationError = 422"
  by (auto simp: active_users_per_day_def active_users_per_day_body_def Let_def split: option.splits)

theorem negative_min_rejected_witness:
  "(- 1 :: int) < 0 \<and> (0 :: int) \<ge> 0
   \<and> active_users_per_day (0::nat) Map.empty (Some (- 1)) = Inl RequestValidationError
   \<and> active_users_per_day (0::nat) [''people'' \<mapsto> [ana]] (Some (- 1)) = Inl RequestValidationError
   \<and> active_users_per_day (0::nat) [''people'' \<mapsto> [ana]] (Some 0)
       = active_users_per_day_body 0 [''people'' \<mapsto> [ana]] (Some 0)"
  using negative_min_rejected [of "- 1" "0::nat" Map.empty]
    negative_min_rejected [of "- 1" "0::nat" "[''people'' \<mapsto> [ana]]"]
    negative_min_rejected [of 0 "0::nat" "[''people'' \<mapsto> [ana]]"]
  by simp

text \<open>C2 as stated fails on the kind of response: it is 422, not the bad-request status 400.\<close>

theorem negative_min_counterexample:
  "active_users_per_day (0::nat) Map.empty (Some (- 1)) = Inl RequestValidationError
   \<and> http_status RequestValidationError \<noteq> 400"
  by (simp add: active_users_per_day_def)

section \<open>Ingestion\<close>

text \<open>
  C3. If some record of the payload does not validate, the call fails and the cache is
  the one the call started with. If every record validates, the cache maps \<open>''people''\<close>
  to the validated payload, whatever it held before, as many records as the payload has,
  in the payload's order, and the reply carries that number.
\<close>

theorem post_users_all_or_nothing:
  "((\<exists>r \<in> set body. validate r = None) \<longrightarrow>
      post_users validate cache body = (cache, Inl RequestValidationError))
   \<and> ((\<forall>r \<in> set body. validate r \<noteq> None) \<longrightarrow>
      (\<exists>people. map validate body = map Some people
         \<and> length people = length body
         \<and> post_users validate cache body =
             (cache(''people'' \<mapsto> people),
              Inr \<lparr>message = str_nat (length body) @ '' pessoas armazenadas em cache''\<rparr>)))"
proof (intro conjI impI)
  assume "\<exists>r \<in> set body. validate r = None"
  then have "those (map validate body) = None"
    by (simp add: those_map_None)
  then show "post_users validate cache body = (cache, Inl RequestValidationError)"
    by (simp add: post_users_def)
next
  assume "\<forall>r \<in> set body. validate r \<noteq> None"
  then have "those (map validate body) \<noteq> None"
    by (simp add: those_map_None)
  then obtain people where p: "those (map validate body) = Some people"
    by auto
  then have m: "map validate body = map Some people"
    by (simp add: those_map_Some)
  then have "length (map validate body) = length (map Some people)"
    by simp
  then have len: "length people = length body"
    by simp
  have "map model_dump people = people"
    by (induction people) (simp_all add: model_dump_def)
  with p len have "post_users validate cache body =
             (cache(''people'' \<mapsto> people),
              Inr \<lparr>message = str_nat (length body) @ '' pessoas armazenadas em cache''\<rparr>)"
    by (simp add: post_users_def post_users_body_def)
  with m len show "\<exists>people. map validate body = map Some people
         \<and> length people = length body
         \<and> post_users validate cache body =
             (cache(''people'' \<mapsto> people),
              Inr \<lparr>message = str_nat (length body) @ '' pessoas armazenadas em cache''\<rparr>)"
    by blast
qed

text \<open>
  At a payload whose second record does not parse, over a cache that holds \<open>[caio]\<close>, and
  at a payload of two records that parse.
\<close>

theorem post_users_all_or_nothing_witness:
  "None \<in> set (map (\<lambda>r. r) [Some ana, None])
   \<and> post_users (\<lambda>r. r) [''people'' \<mapsto> [caio]] [Some ana, None]
       = ([''people'' \<mapsto> [caio]], Inl RequestValidationError)
   \<and> None \<notin> set (map (\<lambda>r. r) [Some ana, Some bia])
   \<and> post_users (\<lambda>r. r) [''people'' \<mapsto> [caio]] [Some ana, Some bia]
       = ([''people'' \<mapsto> [ana, bia]], Inr \<lparr>message = ''2 pessoas armazenadas em cache''\<rparr>)"
  using post_users_all_or_nothing [of "[Some ana, None]" "\<lambda>r. r" "[''people'' \<mapsto> [caio]]"]
    post_users_all_or_nothing [of "[Some ana, Some bia]" "\<lambda>r. r" "[''people'' \<mapsto> [caio]]"]
  by (auto simp: str_nat.simps)

section \<open>Superusers\<close>

text \<open>
  C4. When a snapshot exists, \<open>GET /users\<close> succeeds and its data are exactly the records
  of the snapshot with \<open>score \<ge> 900\<close> and \<open>ativo\<close>, in snapshot order: the filtered snapshot,
  a subsequence of it, containing a record of the snapshot if and only if it qualifies;
  \<open>total\<close> is the length of the data.
\<close>

theorem get_users_superusers:
  assumes "cache ''people'' = Some people"
  shows "\<exists>r. get_users elapsed cache = Inr r
           \<and> data r = [p \<leftarrow> people. score p \<ge> 900 \<and> ativo p]
           \<and> subseq (data r) people
           \<and> (\<forall>p \<in> set people. p \<in> set (data r) \<longleftrightarrow> score p \<ge> 900 \<and> ativo p)
           \<and> set (data r) \<subseteq> set people
           \<and> total r = length (data r)"
  using assms by (auto simp: get_users_def Let_def)

theorem get_users_superusers_witness:
  "[''people'' \<mapsto> [ana, bia, caio]] ''people'' = Some [ana, bia, caio]
   \<and> (\<exists>r. get_users (0::nat) [''people'' \<mapsto> [ana, bia, caio]] = Inr r
          \<and> data r = [ana] \<and> total r = 1)"
proof -
  have f: "[p \<leftarrow> [ana, bia, caio]. score p \<ge> 900 \<and> ativo p] = [ana]"
    by (simp add: ana_def bia_def caio_def sample_person_def)
  have c: "[''people'' \<mapsto> [ana, bia, caio]] ''people'' = Some [ana, bia, caio]"
    by simp
  from get_users_superusers [of "[''people'' \<mapsto> [ana, bia, caio]]" "[ana, bia, caio]" "0::nat"] c
  obtain r where
    "get_users (0::nat) [''people'' \<mapsto> [ana, bia, caio]] = Inr r"
    "data r = [p \<leftarrow> [ana, bia, caio]. score p \<ge> 900 \<and> ativo p]"
    "total r = length (data r)"
    by blast
  with f c show ?thesis
    by simp
qed

section \<open>Queries without a snapshot\<close>

text \<open>
  C9. While the cache has no \<open>''people''\<close> entry, every query handler raises the 404
  exception and returns no data; so does the \<open>/active-users-per-day\<close> route for every
  \<open>min\<close> that passes its validation (absent or non-negative).
\<close>

theorem no_snapshot_not_found:
  assumes "cache ''people'' = None"
  shows "get_users elapsed cache = Inl no_people
       \<and> top_countries elapsed cache = Inl no_people
       \<and> team_insights pct elapsed cache = Inl no_people
       \<and> active_users_per_day_body elapsed cache min_opt = Inl no_people
       \<and> ((\<forall>m. min_opt = Some m \<longrightarrow> m \<ge> 0) \<longrightarrow>
            active_users_per_day elapsed cache min_opt = Inl no_people)
       \<and> http_status no_people = 404"
  using assms
  by (auto simp: get_users_def top_countries_def team_insights_def active_users_per_day_body_def
      active_users_per_day_def split: option.splits)

theorem no_snapshot_not_found_witness:
  "(Map.empty :: cache) ''people'' = None
   \<and> get_users (0::nat) Map.empty = Inl no_people
   \<and> top_countries (0::nat) Map.empty = Inl no_people
   \<and> team_insights (\<lambda>a t. a) (0::nat) Map.empty = Inl no_people
   \<and> (2::int) \<ge> 0
   \<and> active_users_per_day (0::nat) Map.empty (Some 2) = Inl no_people
   \<and> active_users_per_day (0::nat) Map.empty None = Inl no_people"
  using no_snapshot_not_found [of Map.empty "0::nat" "\<lambda>a t. a" "Some 2"]
    no_snapshot_not_found [of Map.empty "0::nat" "\<lambda>a t. a" None]
  by simp

section \<open>Queries over an empty snapshot\<close>

text \<open>
  C10. \<open>POST /users\<close> with an empty list succeeds and leaves a snapshot that exists and is
  empty; on that cache every query succeeds with \<open>total = 0\<close> and no data, for an absent
  \<open>min\<close> and for every non-negative one.
\<close>

theorem empty_payload_then_queries:
  "fst (post_users validate cache []) ''people'' = Some []
   \<and> snd (post_users validate cache []) = Inr \<lparr>message = ''0 pessoas armazenadas em cache''\<rparr>
   \<and> get_users elapsed (fst (post_users validate cache []))
       = Inr \<lparr>processing_time_ms = elapsed, total = 0, data = []\<rparr>
   \<and> top_countries elapsed (fst (post_users validate cache []))
       = Inr \<lparr>processing_time_ms = elapsed, total = 0, data = []\<rparr>
   \<and> team_insights pct elapsed (fst (post_users validate cache []))
       = Inr \<lparr>processing_time_ms = elapsed, total = 0, data = []\<rparr>
   \<and> active_users_per_day elapsed (fst (post_users validate cache [])) None
       = Inr \<lparr>processing_time_ms = elapsed, total = 0, data = []\<rparr>
   \<and> active_users_per_day elapsed (fst (post_users validate cache [])) (Some (int n))
       = Inr \<lparr>processing_time_ms = elapsed, total = 0, data = []\<rparr>"
  by (simp add: post_users_def post_users_body_def get_users_def top_countries_def
      team_insights_def active_users_per_day_def active_users_per_day_body_def
      Counter_def most_common_def team_data_def login_count_by_day_def str_nat.simps)

section \<open>Top countries\<close>

text \<open>
  C5. When a snapshot exists, \<open>GET /top-countries\<close> succeeds with at most 5 pairs (5, or
  the number of distinct countries among the records with \<open>score > 800\<close> when that is
  smaller), of distinct countries. The count of each pair is the number of records with
  \<open>score > 800\<close> in its country, at least 1. The pairs are in descending order of count;
  for every count, the returned pairs with that count are an initial segment of the
  countries with that count in first-encountered order, so ties are broken by first
  encounter: of two returned pairs with equal counts, the one listed first has the
  country that was encountered first. The returned counts sum to at most the number of
  records with \<open>score > 800\<close>, and no country left out has a larger count than a
  returned one.
\<close>

theorem top_countries_ranking:
  assumes "cache ''people'' = Some people"
  shows "\<exists>r. top_countries elapsed cache = Inr r
    \<and> length (data r) \<le> 5
    \<and> total r = length (data r)
    \<and> (\<forall>p \<in> set (data r). snd p = country_count people (fst p) \<and> 1 \<le> snd p)
    \<and> distinct (map fst (data r))
    \<and> sorted_wrt (\<lambda>p q. snd q \<le> snd p) (data r)
    \<and> (\<forall>n. prefix [p \<leftarrow> data r. snd p = n]
              (map (\<lambda>c. (c, n))
                 [c \<leftarrow> first_occurrences (map pais [u \<leftarrow> people. score u > 800]).
                    country_count people c = n]))
    \<and> (\<forall>a b. subseq [a, b] (data r) \<longrightarrow> snd a = snd b \<longrightarrow>
          subseq [fst a, fst b] (first_occurrences (map pais [u \<leftarrow> people. score u > 800])))
    \<and> sum_list (map snd (data r)) \<le> length [u \<leftarrow> people. score u > 800]
    \<and> (\<forall>u \<in> set people. score u > 800 \<longrightarrow> pais u \<notin> fst ` set (data r) \<longrightarrow>
          (\<forall>q \<in> set (data r). country_count people (pais u) \<le> snd q))
    \<and> length (data r) = min 5 (card (pais ` {u \<in> set people. score u > 800}))"
proof -
  let ?cs = "map pais [u \<leftarrow> people. score u > 800]"
  let ?items = "map (\<lambda>c. (c, country_count people c)) (first_occurrences ?cs)"
  let ?top = "most_common 5 ?items"
  let ?r = "\<lparr>processing_time_ms = elapsed, total = length ?top, data = ?top\<rparr>"
  have res: "top_countries elapsed cache = Inr ?r"
    using assms by (simp add: top_countries_def Counter_countries Let_def)
  have keys: "map fst ?items = first_occurrences ?cs"
    by (simp add: comp_def)
  have len: "length ?top = min 5 (length (first_occurrences ?cs))"
    by (simp add: most_common_props(1))
  have l5: "length ?top \<le> 5"
    by (simp add: len)
  have pos: "1 \<le> country_count people c" if "c \<in> set ?cs" for c
  proof -
    from that have "count_list ?cs c \<noteq> 0"
      by (simp only: count_list_0_iff not_not)
    then show ?thesis
      by (simp add: count_countries)
  qed
  have cnt: "\<forall>p \<in> set ?top. snd p = country_count people (fst p) \<and> 1 \<le> snd p"
  proof
    fix p assume "p \<in> set ?top"
    with most_common_props(2) [of 5 ?items] have "p \<in> set ?items"
      by blast
    then obtain c where c: "p = (c, country_count people c)" "c \<in> set ?cs"
      by auto
    with pos [of c] show "snd p = country_count people (fst p) \<and> 1 \<le> snd p"
      by simp
  qed
  have dist: "distinct (map fst ?top)"
    using most_common_props(3) [of ?items 5] by (simp only: keys distinct_first_occurrences)
  have srt: "sorted_wrt (\<lambda>p q. snd q \<le> snd p) ?top"
    by (rule most_common_props(4))
  have ties: "\<forall>n. prefix [p \<leftarrow> ?top. snd p = n]
              (map (\<lambda>c. (c, n)) [c \<leftarrow> first_occurrences ?cs. country_count people c = n])"
  proof
    fix n
    have "[p \<leftarrow> ?items. snd p = n]
        = map (\<lambda>c. (c, country_count people c))
            [c \<leftarrow> first_occurrences ?cs. country_count people c = n]"
      by (simp add: filter_map comp_def)
    also have "\<dots> = map (\<lambda>c. (c, n)) [c \<leftarrow> first_occurrences ?cs. country_count people c = n]"
      by (rule map_cong) simp_all
    finally show "prefix [p \<leftarrow> ?top. snd p = n]
              (map (\<lambda>c. (c, n)) [c \<leftarrow> first_occurrences ?cs. country_count people c = n])"
      using most_common_props(5) [of n 5 ?items] by simp
  qed
  have pair: "\<forall>a b. subseq [a, b] ?top \<longrightarrow> snd a = snd b \<longrightarrow>
          subseq [fst a, fst b] (first_occurrences ?cs)"
  proof (intro allI impI)
    fix a b :: "string \<times> nat"
    assume ab: "subseq [a, b] ?top" and eq: "snd a = snd b"
    let ?F = "[c \<leftarrow> first_occurrences ?cs. country_count people c = snd a]"
    from ab have "subseq [p \<leftarrow> [a, b]. snd p = snd a] [p \<leftarrow> ?top. snd p = snd a]"
      by (rule subseq_filter)
    with eq have "subseq [a, b] [p \<leftarrow> ?top. snd p = snd a]"
      by simp
    moreover from ties have "subseq [p \<leftarrow> ?top. snd p = snd a] (map (\<lambda>c. (c, snd a)) ?F)"
      by blast
    ultimately have "subseq [a, b] (map (\<lambda>c. (c, snd a)) ?F)"
      by (rule subseq_order.order_trans)
    then have "subseq (map fst [a, b]) (map fst (map (\<lambda>c. (c, snd a)) ?F))"
      by (rule subseq_map)
    then have "subseq [fst a, fst b] ?F"
      by (simp add: comp_def)
    moreover have "subseq ?F (first_occurrences ?cs)"
      by (rule subseq_filter_left)
    ultimately show "subseq [fst a, fst b] (first_occurrences ?cs)"
      by (rule subseq_order.order_trans)
  qed
  have "count_list ?cs = country_count people"
    by (rule ext) (rule count_countries)
  then have "sum_list (map snd ?items) = sum_list (map (count_list ?cs) (first_occurrences ?cs))"
    by (simp add: comp_def)
  then have "sum_list (map snd ?items) = length [u \<leftarrow> people. score u > 800]"
    by (simp only: sum_counts length_map)
  with most_common_props(6) [of 5 ?items]
  have sm: "sum_list (map snd ?top) \<le> length [u \<leftarrow> people. score u > 800]"
    by simp
  have topn: "\<forall>u \<in> set people. score u > 800 \<longrightarrow> pais u \<notin> fst ` set ?top \<longrightarrow>
          (\<forall>q \<in> set ?top. country_count people (pais u) \<le> snd q)"
  proof (intro ballI impI)
    fix u q
    assume u: "u \<in> set people" "score u > 800" and out: "pais u \<notin> fst ` set ?top"
      and q: "q \<in> set ?top"
    let ?p = "(pais u, country_count people (pais u))"
    from u have "pais u \<in> set ?cs"
      by simp
    then have "?p \<in> set ?items"
      by simp
    moreover from out have "?p \<notin> set ?top"
      by force
    ultimately have "snd ?p \<le> snd q"
      using q by (rule most_common_props(7))
    then show "country_count people (pais u) \<le> snd q"
      by simp
  qed
  have "set (first_occurrences ?cs) = pais ` {u \<in> set people. score u > 800}"
    by auto
  moreover have "card (set (first_occurrences ?cs)) = length (first_occurrences ?cs)"
    by (rule distinct_card) simp
  ultimately have crd: "length ?top = min 5 (card (pais ` {u \<in> set people. score u > 800}))"
    by (simp only: len)
  have sel: "data ?r = ?top" "total ?r = length ?top"
    by simp_all
  show ?thesis
  proof (intro exI [of _ ?r] conjI)
    show "top_countries elapsed cache = Inr ?r"
      by (rule res)
    show "length (data ?r) \<le> 5"
      using l5 by (simp only: sel simp_thms)
    show "total ?r = length (data ?r)"
      by (simp only: sel simp_thms)
    show "\<forall>p \<in> set (data ?r). snd p = country_count people (fst p) \<and> 1 \<le> snd p"
      using cnt by (simp only: sel simp_thms)
    show "distinct (map fst (data ?r))"
      using dist by (simp only: sel simp_thms)
    show "sorted_wrt (\<lambda>p q. snd q \<le> snd p) (data ?r)"
      using srt by (simp only: sel simp_thms)
    show "\<forall>n. prefix [p \<leftarrow> data ?r. snd p = n]
            (map (\<lambda>c. (c, n)) [c \<leftarrow> first_occurrences ?cs. country_count people c = n])"
      using ties by (simp only: sel simp_thms)
    show "\<forall>a b. subseq [a, b] (data ?r) \<longrightarrow> snd a = snd b \<longrightarrow>
          subseq [fst a, fst b] (first_occurrences ?cs)"
      using pair by (simp only: sel simp_thms)
    show "sum_list (map snd (data ?r)) \<le> length [u \<leftarrow> people. score u > 800]"
      using sm by (simp only: sel simp_thms)
    show "\<forall>u \<in> set people. score u > 800 \<longrightarrow> pais u \<notin> fst ` set (data ?r) \<longrightarrow>
          (\<forall>q \<in> set (data ?r). country_count people (pais u) \<le> snd q)"
      using topn by (simp only: sel simp_thms)
    show "length (data ?r) = min 5 (card (pais ` {u \<in> set people. score u > 800}))"
      using crd by simp
  qed
qed

text \<open>With the score-870 record of the US first, then two above 800 of BR.\<close>

theorem top_countries_ranking_witness:
  "[''people'' \<mapsto> [dora, ana, caio, edu]] ''people'' = Some [dora, ana, caio, edu]
   \<and> (\<exists>r. top_countries (0::nat) [''people'' \<mapsto> [dora, ana, caio, edu]] = Inr r
          \<and> data r = [(''BR'', 2), (''US'', 1)]
          \<and> length (data r) \<le> 5
          \<and> sum_list (map snd (data r)) \<le> 3)"
proof -
  have c: "[''people'' \<mapsto> [dora, ana, caio, edu]] ''people'' = Some [dora, ana, caio, edu]"
    by simp
  have f: "[u \<leftarrow> [dora, ana, caio, edu]. score u > 800] = [dora, ana, edu]"
    by (simp add: ana_def caio_def dora_def edu_def sample_person_def)
  have p: "map pais [dora, ana, edu] = [''US'', ''BR'', ''BR'']"
    by (simp add: ana_def dora_def edu_def sample_person_def)
  have e: "top_countries (0::nat) [''people'' \<mapsto> [dora, ana, caio, edu]]
      = Inr \<lparr>processing_time_ms = 0, total = 2, data = [(''BR'', 2), (''US'', 1)]\<rparr>"
    by (simp add: top_countries_def Counter_def most_common_def Let_def
        ana_def caio_def dora_def edu_def sample_person_def)
  from top_countries_ranking [of "[''people'' \<mapsto> [dora, ana, caio, edu]]"
      "[dora, ana, caio, edu]" "0::nat"] c
  obtain r where r: "top_countries (0::nat) [''people'' \<mapsto> [dora, ana, caio, edu]] = Inr r"
    "length (data r) \<le> 5"
    "sum_list (map snd (data r)) \<le> length [u \<leftarrow> [dora, ana, caio, edu]. score u > 800]"
    by blast
  from r(1) e have "r = \<lparr>processing_time_ms = 0, total = 2, data = [(''BR'', 2), (''US'', 1)]\<rparr>"
    by simp
  then have d: "data r = [(''BR'', 2), (''US'', 1)]"
    by simp
  from r(3) f have "sum_list (map snd (data r)) \<le> 3"
    by simp
  with r(1,2) c d show ?thesis
    by simp
qed

section \<open>Active users per day\<close>

text \<open>
  C7. When a snapshot exists and \<open>min\<close> is absent or non-negative, the call succeeds; its
  data list one entry per date that has at least one login entry and, when \<open>min\<close> is
  present, at least \<open>min\<close> of them, each with the number of login entries of all records
  on that date, in the order in which the dates were first encountered; \<open>total\<close> is the
  number of entries.
\<close>

theorem active_users_per_day_counts:
  assumes "cache ''people'' = Some people"
    and "case min_opt of None \<Rightarrow> True | Some m \<Rightarrow> 0 \<le> m"
  shows "\<exists>r. active_users_per_day elapsed cache min_opt = Inr r
    \<and> data r = map (\<lambda>d. \<lparr>day_data = d, logins = logins_on people d\<rparr>)
                 [d \<leftarrow> first_occurrences (login_dates people).
                    case min_opt of None \<Rightarrow> True | Some m \<Rightarrow> m \<le> int (logins_on people d)]
    \<and> (\<forall>d. d \<in> day_data ` set (data r) \<longleftrightarrow>
             1 \<le> logins_on people d
             \<and> (case min_opt of None \<Rightarrow> True | Some m \<Rightarrow> m \<le> int (logins_on people d)))
    \<and> distinct (map day_data (data r))
    \<and> total r = length (data r)"
proof -
  let ?keep = "\<lambda>d. case min_opt of None \<Rightarrow> True | Some m \<Rightarrow> m \<le> int (logins_on people d)"
  let ?days = "map (\<lambda>d. \<lparr>day_data = d, logins = logins_on people d\<rparr>)
                 [d \<leftarrow> first_occurrences (login_dates people). ?keep d]"
  let ?r = "\<lparr>processing_time_ms = elapsed, total = length ?days, data = ?days\<rparr>"
  have route: "active_users_per_day elapsed cache min_opt
      = active_users_per_day_body elapsed cache min_opt"
    using assms(2) by (simp add: active_users_per_day_def split: option.splits)
  have res: "active_users_per_day elapsed cache min_opt = Inr ?r"
    by (simp only: route active_users_per_day_body_eq [of cache people, OF assms(1)] Let_def)
  have keys: "map day_data ?days = [d \<leftarrow> first_occurrences (login_dates people). ?keep d]"
    by (simp add: comp_def)
  have mem: "\<forall>d. d \<in> day_data ` set ?days \<longleftrightarrow> 1 \<le> logins_on people d \<and> ?keep d"
  proof
    fix d
    have "d \<in> day_data ` set ?days \<longleftrightarrow> d \<in> set (map day_data ?days)"
      by (simp only: set_map)
    also have "\<dots> \<longleftrightarrow> d \<in> set (login_dates people) \<and> ?keep d"
      by (simp only: keys set_filter set_first_occurrences) simp
    finally show "d \<in> day_data ` set ?days \<longleftrightarrow> 1 \<le> logins_on people d \<and> ?keep d"
      by (simp only: in_login_dates)
  qed
  have dist: "distinct (map day_data ?days)"
    by (simp only: keys) simp
  from res mem dist show ?thesis
    by (intro exI [of _ ?r]) simp
qed

theorem active_users_per_day_counts_witness:
  "[''people'' \<mapsto> [ana, bia, caio]] ''people'' = Some [ana, bia, caio]
   \<and> (0::int) \<le> 2
   \<and> (\<exists>r. active_users_per_day (0::nat) [''people'' \<mapsto> [ana, bia, caio]] (Some 2) = Inr r
          \<and> data r = [\<lparr>day_data = Date 2025 3 2, logins = 2\<rparr>]
          \<and> total r = 1)"
proof -
  have c: "[''people'' \<mapsto> [ana, bia, caio]] ''people'' = Some [ana, bia, caio]"
    by simp
  have m: "case Some (2::int) of None \<Rightarrow> True | Some m \<Rightarrow> 0 \<le> m"
    by simp
  have ld: "login_dates [ana, bia, caio]
      = [Date 2025 3 1, Date 2025 3 2, Date 2025 3 2, Date 2025 3 3]"
    by (simp add: login_dates_def ana_def bia_def caio_def sample_person_def)
  have n: "logins_on [ana, bia, caio] (Date 2025 3 1) = 1"
    "logins_on [ana, bia, caio] (Date 2025 3 2) = 2"
    "logins_on [ana, bia, caio] (Date 2025 3 3) = 1"
    by (simp_all add: logins_on_def ana_def bia_def caio_def sample_person_def)
  from active_users_per_day_counts [of "[''people'' \<mapsto> [ana, bia, caio]]"
      "[ana, bia, caio]" "Some 2" "0::nat"] c m
  obtain r where r: "active_users_per_day (0::nat) [''people'' \<mapsto> [ana, bia, caio]] (Some 2) = Inr r"
    "data r = map (\<lambda>d. \<lparr>day_data = d, logins = logins_on [ana, bia, caio] d\<rparr>)
       [d \<leftarrow> first_occurrences (login_dates [ana, bia, caio]).
          case Some 2 of None \<Rightarrow> True | Some m \<Rightarrow> m \<le> int (logins_on [ana, bia, caio] d)]"
    "total r = length (data r)"
    by blast
  from r(2) have d: "data r = [\<lparr>day_data = Date 2025 3 2, logins = 2\<rparr>]"
    by (simp add: ld n)
  with r(3) have "total r = 1"
    by simp
  with r(1) c d show ?thesis
    by simp
qed

text \<open>
  C8. When a snapshot exists and \<open>0 \<le> m1 \<le> m2\<close>, the result for \<open>min = m2\<close> is no longer
  than the result for \<open>min = m1\<close> and every day of it is in the latter; with \<open>min\<close>
  omitted, the days returned are exactly the dates with at least one login, each once.
\<close>

theorem min_filter_monotone:
  assumes "cache ''people'' = Some people" and "0 \<le> m1" and "m1 \<le> m2"
  shows "\<exists>r1 r2 r0.
       active_users_per_day elapsed cache (Some m1) = Inr r1
     \<and> active_users_per_day elapsed cache (Some m2) = Inr r2
     \<and> active_users_per_day elapsed cache None = Inr r0
     \<and> length (data r2) \<le> length (data r1)
     \<and> total r2 \<le> total r1
     \<and> set (data r2) \<subseteq> set (data r1)
     \<and> (\<forall>d. d \<in> day_data ` set (data r0) \<longleftrightarrow> 1 \<le> logins_on people d)
     \<and> distinct (map day_data (data r0))
     \<and> total r0 = card {d. 1 \<le> logins_on people d}"
proof -
  let ?fo = "first_occurrences (login_dates people)"
  let ?mk = "\<lambda>d. \<lparr>day_data = d, logins = logins_on people d\<rparr>"
  let ?d1 = "map ?mk [d \<leftarrow> ?fo. m1 \<le> int (logins_on people d)]"
  let ?d2 = "map ?mk [d \<leftarrow> ?fo. m2 \<le> int (logins_on people d)]"
  let ?d0 = "map ?mk ?fo"
  let ?r1 = "\<lparr>processing_time_ms = elapsed, total = length ?d1, data = ?d1\<rparr>"
  let ?r2 = "\<lparr>processing_time_ms = elapsed, total = length ?d2, data = ?d2\<rparr>"
  let ?r0 = "\<lparr>processing_time_ms = elapsed, total = length ?d0, data = ?d0\<rparr>"
  from assms have m2: "0 \<le> m2" by simp
  have e1: "active_users_per_day elapsed cache (Some m1) = Inr ?r1"
    using assms(2) by (simp add: active_users_per_day_def active_users_per_day_body_eq [of cache people, OF assms(1)])
  have e2: "active_users_per_day elapsed cache (Some m2) = Inr ?r2"
    using m2 by (simp add: active_users_per_day_def active_users_per_day_body_eq [of cache people, OF assms(1)])
  have e0: "active_users_per_day elapsed cache None = Inr ?r0"
    by (simp add: active_users_per_day_def active_users_per_day_body_eq [of cache people, OF assms(1)])
  have len: "length ?d2 \<le> length ?d1"
    using assms(3) by (simp only: length_map) (rule length_filter_mono, simp)
  have sub: "set ?d2 \<subseteq> set ?d1"
    using assms(3) by auto
  have mem: "\<forall>d. d \<in> day_data ` set ?d0 \<longleftrightarrow> 1 \<le> logins_on people d"
    by (simp add: image_image in_login_dates)
  have dist: "distinct (map day_data ?d0)"
    by (simp add: comp_def)
  have "{d. 1 \<le> logins_on people d} = set ?fo"
    by (auto simp: in_login_dates)
  moreover have "card (set ?fo) = length ?fo"
    by (rule distinct_card) simp
  ultimately have card: "length ?d0 = card {d. 1 \<le> logins_on people d}"
    by (simp only: length_map)
  from e1 e2 e0 len sub mem dist card show ?thesis
    by (intro exI [of _ ?r1] exI [of _ ?r2] exI [of _ ?r0]) simp
qed

theorem min_filter_monotone_witness:
  "[''people'' \<mapsto> [ana, bia, caio]] ''people'' = Some [ana, bia, caio]
   \<and> (0::int) \<le> 1 \<and> (1::int) \<le> 2
   \<and> (\<exists>r1 r2. active_users_per_day (0::nat) [''people'' \<mapsto> [ana, bia, caio]] (Some 1) = Inr r1
          \<and> active_users_per_day (0::nat) [''people'' \<mapsto> [ana, bia, caio]] (Some 2) = Inr r2
          \<and> length (data r2) \<le> length (data r1))"
proof -
  have c: "[''people'' \<mapsto> [ana, bia, caio]] ''people'' = Some [ana, bia, caio]"
    by simp
  from min_filter_monotone [of "[''people'' \<mapsto> [ana, bia, caio]]" "[ana, bia, caio]" 1 2 "0::nat"] c
  show ?thesis
    by simp blast
qed

end
